theory Spec2Isabelle
  imports Main
begin

section \<open>Voxel render resources: the shader assembly of \<open>VoxelRenderResources.js\<close>\<close>

text \<open>
  The constructor \<open>VoxelRenderResources(primitive)\<close> of
  \<open>packages/engine/Source/Scene/VoxelRenderResources.js\<close> creates a shader builder, merges
  the uniform maps, and adds uniforms, defines and source lines to the builder in a fixed
  order. It is embedded as a function from the primitive to the constructed object and the
  primitive as the constructor leaves it (the constructor assigns one field of it).

  Numbers are unbounded integers: the counts involved are small non-negative integers,
  which JavaScript's numbers hold exactly.
\<close>

subsection \<open>Values\<close>

text \<open>
  The values a define can carry: \<open>undefined\<close>, a boolean, a number, a string.
\<close>

datatype jsval = JUndefined | JBool bool | JNum int | JStr string

definition defined :: "jsval \<Rightarrow> bool" where
  \<comment> \<open>Modelled from the spec: \<open>Core/defined.js\<close> is not part of the sources. Following
      lines 153-155 and the spec's "absent marker", a value is defined when it is not
      \<open>undefined\<close>.\<close>
  "defined v = (v \<noteq> JUndefined)"

datatype Cartesian3 = Cartesian3 int int int

definition Cartesian3_ZERO :: Cartesian3 where
  \<comment> \<open>Modelled from the spec: \<open>Core/Cartesian3.js\<close> is not part of the sources; the zero
      vector.\<close>
  "Cartesian3_ZERO = Cartesian3 0 0 0"

definition Cartesian3_equals :: "Cartesian3 \<Rightarrow> Cartesian3 \<Rightarrow> bool" where
  \<comment> \<open>Modelled from the spec: component-wise equality of two vectors.\<close>
  "Cartesian3_equals left right = (left = right)"

text \<open>
  \<open>`${n}`\<close> of an integer: its decimal digits, with a minus sign when negative.
\<close>

fun decimal_nat :: "nat \<Rightarrow> string" where
  "decimal_nat n =
     (if n < 10 then [''0123456789'' ! n]
      else decimal_nat (n div 10) @ [''0123456789'' ! (n mod 10)])"

declare decimal_nat.simps [simp del]

definition template_literal :: "int \<Rightarrow> string" where
  "template_literal n =
     (if n < 0 then CHR ''-'' # decimal_nat (nat (- n)) else decimal_nat (nat n))"

subsection \<open>The shader builder\<close>

text \<open>
  Modelled from the spec: \<open>Renderer/ShaderBuilder.js\<close> and
  \<open>Renderer/ShaderDestination.js\<close> are not part of the sources. The builder follows the
  spec's data model: two independent accumulators (vertex, fragment), each holding the
  uniform declarations, the defines and the source lines in insertion order. A uniform
  declaration is the pair of type and name as passed; a define is the pair of its name and
  its value, \<open>JUndefined\<close> for a define with no substitution text. Each operation
  appends to the stages its destination names; source lines are not deduplicated. The
  constructor never reads the builder's state, and no operation of the builder is
  modelled as failing.
\<close>

datatype ShaderDestination = VERTEX | FRAGMENT | BOTH

definition includesVertexShader :: "ShaderDestination \<Rightarrow> bool" where
  \<comment> \<open>Modelled from the spec: uniforms and defines are stage-scoped.\<close>
  "includesVertexShader destination = (destination = VERTEX \<or> destination = BOTH)"

definition includesFragmentShader :: "ShaderDestination \<Rightarrow> bool" where
  \<comment> \<open>Modelled from the spec: uniforms and defines are stage-scoped.\<close>
  "includesFragmentShader destination = (destination = FRAGMENT \<or> destination = BOTH)"

record ShaderParts =
  uniformLines :: "(string \<times> string) list"
  defineLines :: "(string \<times> jsval) list"
  shaderLines :: "string list"

record ShaderBuilder =
  vertexShaderParts :: ShaderParts
  fragmentShaderParts :: ShaderParts

definition new_ShaderParts :: ShaderParts where
  "new_ShaderParts = \<lparr>uniformLines = [], defineLines = [], shaderLines = []\<rparr>"

definition new_ShaderBuilder :: ShaderBuilder where
  \<comment> \<open>Modelled from the spec: a fresh builder, both accumulators empty.\<close>
  "new_ShaderBuilder =
     \<lparr>vertexShaderParts = new_ShaderParts, fragmentShaderParts = new_ShaderParts\<rparr>"

definition addUniform ::
  "string \<Rightarrow> string \<Rightarrow> ShaderDestination \<Rightarrow> ShaderBuilder \<Rightarrow> ShaderBuilder" where
  \<comment> \<open>Modelled from the spec: \<open>addUniform(type, name, stage)\<close>.\<close>
  "addUniform ty identifier destination sb =
     (let sb1 = (if includesVertexShader destination
                 then sb\<lparr>vertexShaderParts := (vertexShaderParts sb)
                        \<lparr>uniformLines := uniformLines (vertexShaderParts sb) @ [(ty, identifier)]\<rparr>\<rparr>
                 else sb)
      in if includesFragmentShader destination
         then sb1\<lparr>fragmentShaderParts := (fragmentShaderParts sb1)
                \<lparr>uniformLines := uniformLines (fragmentShaderParts sb1) @ [(ty, identifier)]\<rparr>\<rparr>
         else sb1)"

definition addDefine ::
  "string \<Rightarrow> jsval \<Rightarrow> ShaderDestination \<Rightarrow> ShaderBuilder \<Rightarrow> ShaderBuilder" where
  \<comment> \<open>Modelled from the spec: \<open>addDefine(name, value|absent, stage)\<close>.\<close>
  "addDefine identifier v destination sb =
     (let sb1 = (if includesVertexShader destination
                 then sb\<lparr>vertexShaderParts := (vertexShaderParts sb)
                        \<lparr>defineLines := defineLines (vertexShaderParts sb) @ [(identifier, v)]\<rparr>\<rparr>
                 else sb)
      in if includesFragmentShader destination
         then sb1\<lparr>fragmentShaderParts := (fragmentShaderParts sb1)
                \<lparr>defineLines := defineLines (fragmentShaderParts sb1) @ [(identifier, v)]\<rparr>\<rparr>
         else sb1)"

definition addVertexLines :: "string list \<Rightarrow> ShaderBuilder \<Rightarrow> ShaderBuilder" where
  \<comment> \<open>Modelled from the spec: \<open>addVertexLines(fragments)\<close>, concatenated in call order.\<close>
  "addVertexLines ls sb =
     sb\<lparr>vertexShaderParts := (vertexShaderParts sb)
          \<lparr>shaderLines := shaderLines (vertexShaderParts sb) @ ls\<rparr>\<rparr>"

definition addFragmentLines :: "string list \<Rightarrow> ShaderBuilder \<Rightarrow> ShaderBuilder" where
  \<comment> \<open>Modelled from the spec: \<open>addFragmentLines(fragments)\<close>, concatenated in call order.\<close>
  "addFragmentLines ls sb =
     sb\<lparr>fragmentShaderParts := (fragmentShaderParts sb)
          \<lparr>shaderLines := shaderLines (fragmentShaderParts sb) @ ls\<rparr>\<rparr>"

subsection \<open>The shader library\<close>

text \<open>
  The shader texts imported at lines 6-19 are string constants of files that are not part
  of the sources. They are a parameter of the embedding.
\<close>

record ShaderLibrary =
  VoxelFS :: string
  VoxelVS :: string
  IntersectionUtils :: string
  IntersectDepth :: string
  IntersectClippingPlanes :: string
  IntersectBox :: string
  IntersectCylinder :: string
  IntersectEllipsoid :: string
  Intersection :: string
  convertUvToBox :: string
  convertUvToCylinder :: string
  convertUvToEllipsoid :: string
  Octree :: string
  Megatexture :: string

subsection \<open>The primitive and its collaborators\<close>

text \<open>
  An object that the constructor enumerates with \<open>for ... in\<close> under a
  \<open>hasOwnProperty\<close> guard is the list of its own enumerable properties in enumeration
  order. A uniform map is a map from names to accessors; the accessors are of an
  arbitrary type \<open>'a\<close>.
\<close>

record Uniform =
  uniform_type :: string

record 'a CustomShader =
  cs_uniformMap :: "string \<rightharpoonup> 'a"
  cs_uniforms :: "(string \<times> Uniform) list"
  fragmentShaderText :: string

record ClippingPlaneCollection =
  enabled :: bool
  length_cp :: int
  unionClippingRegions :: bool

record VoxelProvider =
  shape :: string

record VoxelShape =
  shaderDefines :: "(string \<times> jsval) list"
  shaderMaximumIntersectionsLength :: int

record VoxelTraversal =
  sampleCount :: int

record 'a VoxelPrimitive =
  prim_customShader :: "'a CustomShader"
  prim_uniformMap :: "string \<rightharpoonup> 'a"
  prim_clippingPlanes :: "ClippingPlaneCollection option"
  prim_depthTest :: bool
  prim_provider :: VoxelProvider
  prim_shape :: VoxelShape
  paddingBefore :: Cartesian3
  paddingAfter :: Cartesian3
  prim_useLogDepth :: bool
  prim_jitter :: bool
  prim_nearestSampling :: bool
  prim_traversal :: VoxelTraversal

record 'a RenderResources =
  shaderBuilder :: ShaderBuilder
  uniformMap :: "string \<rightharpoonup> 'a"
  clippingPlanes :: "ClippingPlaneCollection option"
  clippingPlanesLength :: int

subsection \<open>The constructor\<close>

definition combine :: "(string \<rightharpoonup> 'a) \<Rightarrow> (string \<rightharpoonup> 'a) \<Rightarrow> (string \<rightharpoonup> 'a)" where
  \<comment> \<open>Modelled from the spec: \<open>Core/combine.js\<close> is not part of the sources. The spec
      records the merge order of the original (base map first, custom shader's map second)
      and leaves open which side wins on a shared key. The library's \<open>combine\<close> copies
      the properties of both objects onto a new object and, where both have a property,
      keeps the value of the first object; that is what is modelled: \<open>object1\<close>
      overrides \<open>object2\<close>.\<close>
  "combine object1 object2 = object2 ++ object1"

definition addCustomShaderUniforms ::
  "(string \<times> Uniform) list \<Rightarrow> ShaderBuilder \<Rightarrow> ShaderBuilder" where
  \<comment> \<open>lines 48-58\<close>
  "addCustomShaderUniforms customShaderUniforms sb =
     fold (\<lambda>(uniformName, uniform). addUniform (uniform_type uniform) uniformName FRAGMENT)
       customShaderUniforms sb"

definition getClippingPlanesLength :: "ClippingPlaneCollection option \<Rightarrow> int" where
  \<comment> \<open>lines 76-79: \<open>defined(clippingPlanes) && clippingPlanes.enabled ? clippingPlanes.length : 0\<close>\<close>
  "getClippingPlanesLength cp =
     (case cp of
        None \<Rightarrow> 0
      | Some c \<Rightarrow> if enabled c then length_cp c else 0)"

definition getUnionClippingRegions :: "ClippingPlaneCollection option \<Rightarrow> bool" where
  \<comment> \<open>\<open>clippingPlanes.unionClippingRegions\<close>, read at lines 106 and 172 only where
      \<open>clippingPlanesLength > 0\<close>, so only where the collection is defined.\<close>
  "getUnionClippingRegions cp =
     (case cp of None \<Rightarrow> False | Some c \<Rightarrow> unionClippingRegions c)"

definition addClippingPlanes ::
  "ShaderLibrary \<Rightarrow> ClippingPlaneCollection option \<Rightarrow> int \<Rightarrow> ShaderBuilder \<Rightarrow> ShaderBuilder" where
  \<comment> \<open>lines 95-114\<close>
  "addClippingPlanes lib cp cpLength sb =
     (if cpLength > 0 then
        let sb1 = addDefine ''CLIPPING_PLANES'' JUndefined FRAGMENT sb;
            sb2 = addDefine ''CLIPPING_PLANES_COUNT'' (JNum cpLength) FRAGMENT sb1;
            sb3 = (if getUnionClippingRegions cp
                   then addDefine ''CLIPPING_PLANES_UNION'' JUndefined FRAGMENT sb2
                   else sb2)
        in addFragmentLines [IntersectClippingPlanes lib] sb3
      else sb)"

definition addDepthTest :: "ShaderLibrary \<Rightarrow> bool \<Rightarrow> ShaderBuilder \<Rightarrow> ShaderBuilder" where
  \<comment> \<open>lines 115-122\<close>
  "addDepthTest lib depthTest sb =
     (if depthTest then
        addFragmentLines [IntersectDepth lib] (addDefine ''DEPTH_TEST'' JUndefined FRAGMENT sb)
      else sb)"

definition addShape :: "ShaderLibrary \<Rightarrow> string \<Rightarrow> ShaderBuilder \<Rightarrow> ShaderBuilder" where
  \<comment> \<open>lines 124-144\<close>
  "addShape lib shapeType sb =
     (if shapeType = ''BOX'' then
        addFragmentLines [convertUvToBox lib, IntersectBox lib, Intersection lib]
          (addDefine ''SHAPE_BOX'' JUndefined FRAGMENT sb)
      else if shapeType = ''CYLINDER'' then
        addFragmentLines [IntersectCylinder lib, Intersection lib, convertUvToCylinder lib] sb
      else if shapeType = ''ELLIPSOID'' then
        addFragmentLines [IntersectEllipsoid lib, Intersection lib, convertUvToEllipsoid lib] sb
      else sb)"

definition addShapeDefines :: "(string \<times> jsval) list \<Rightarrow> ShaderBuilder \<Rightarrow> ShaderBuilder" where
  \<comment> \<open>lines 149-160\<close>
  "addShapeDefines shapeDefines sb =
     fold (\<lambda>(key, v) sb'.
             if defined v
             then addDefine key (if v = JBool True then JUndefined else v) FRAGMENT sb'
             else sb')
       shapeDefines sb"

definition countIntersections ::
  "int \<Rightarrow> ClippingPlaneCollection option \<Rightarrow> int \<Rightarrow> bool \<Rightarrow> ShaderBuilder \<Rightarrow> ShaderBuilder" where
  \<comment> \<open>lines 162-190; \<open>intersectionCount\<close> is the mutable counter\<close>
  "countIntersections maximumIntersectionsLength cp cpLength depthTest sb =
     (let intersectionCount = maximumIntersectionsLength;
          (sb1, intersectionCount1) =
            (if cpLength > 0 then
               (addDefine ''CLIPPING_PLANES_INTERSECTION_INDEX'' (JNum intersectionCount)
                  FRAGMENT sb,
                if cpLength = 1 then intersectionCount + 1
                else if getUnionClippingRegions cp then intersectionCount + 2
                else intersectionCount + 1)
             else (sb, intersectionCount));
          (sb2, intersectionCount2) =
            (if depthTest then
               (addDefine ''DEPTH_INTERSECTION_INDEX'' (JNum intersectionCount1) FRAGMENT sb1,
                intersectionCount1 + 1)
             else (sb1, intersectionCount1))
      in addDefine ''INTERSECTION_COUNT'' (JNum intersectionCount2) FRAGMENT sb2)"

definition addAdditionalDefines ::
  "Cartesian3 \<Rightarrow> Cartesian3 \<Rightarrow> bool \<Rightarrow> bool \<Rightarrow> bool \<Rightarrow> ShaderBuilder \<Rightarrow> ShaderBuilder" where
  \<comment> \<open>lines 192-218\<close>
  "addAdditionalDefines before after useLogDepth jitter nearestSampling sb =
     (let sb1 = (if \<not> Cartesian3_equals before Cartesian3_ZERO \<or>
                    \<not> Cartesian3_equals after Cartesian3_ZERO
                 then addDefine ''PADDING'' JUndefined FRAGMENT sb else sb);
          sb2 = (if useLogDepth
                 then addDefine ''LOG_DEPTH_READ_ONLY'' JUndefined FRAGMENT sb1 else sb1);
          sb3 = (if jitter then addDefine ''JITTER'' JUndefined FRAGMENT sb2 else sb2)
      in if nearestSampling
         then addDefine ''NEAREST_SAMPLING'' JUndefined FRAGMENT sb3 else sb3)"

definition VoxelRenderResources ::
  "ShaderLibrary \<Rightarrow> 'a VoxelPrimitive \<Rightarrow> 'a RenderResources \<times> 'a VoxelPrimitive" where
  "VoxelRenderResources lib primitive =
     (let sb0 = new_ShaderBuilder;
          \<comment> \<open>lines 43-46\<close>
          customShader = prim_customShader primitive;
          uniformMap' = combine (prim_uniformMap primitive) (cs_uniformMap customShader);
          primitive' = primitive\<lparr>prim_uniformMap := uniformMap'\<rparr>;
          \<comment> \<open>lines 48-65\<close>
          sb1 = addCustomShaderUniforms (cs_uniforms customShader) sb0;
          sb2 = addUniform ''sampler2D'' ''u_megatextureTextures[METADATA_COUNT]'' FRAGMENT sb1;
          \<comment> \<open>lines 75-82\<close>
          clippingPlanes' = prim_clippingPlanes primitive';
          clippingPlanesLength' = getClippingPlanesLength clippingPlanes';
          \<comment> \<open>lines 85-93\<close>
          sb3 = addVertexLines [VoxelVS lib] sb2;
          sb4 = addFragmentLines
                  [fragmentShaderText customShader, ''#line 0'', Octree lib,
                   IntersectionUtils lib, Megatexture lib] sb3;
          \<comment> \<open>lines 95-122\<close>
          sb5 = addClippingPlanes lib clippingPlanes' clippingPlanesLength' sb4;
          sb6 = addDepthTest lib (prim_depthTest primitive') sb5;
          \<comment> \<open>lines 124-146\<close>
          shapeType = shape (prim_provider primitive');
          sb7 = addShape lib shapeType sb6;
          sb8 = addFragmentLines [VoxelFS lib] sb7;
          \<comment> \<open>lines 148-160\<close>
          shape' = prim_shape primitive';
          sb9 = addShapeDefines (shaderDefines shape') sb8;
          \<comment> \<open>lines 162-190\<close>
          sb10 = countIntersections (shaderMaximumIntersectionsLength shape')
                   clippingPlanes' clippingPlanesLength' (prim_depthTest primitive') sb9;
          \<comment> \<open>lines 192-218\<close>
          sb11 = addAdditionalDefines (paddingBefore primitive') (paddingAfter primitive')
                   (prim_useLogDepth primitive') (prim_jitter primitive')
                   (prim_nearestSampling primitive') sb10;
          \<comment> \<open>lines 219-224\<close>
          traversal = prim_traversal primitive';
          sb12 = addDefine ''SAMPLE_COUNT'' (JStr (template_literal (sampleCount traversal)))
                   FRAGMENT sb11
      in (\<lparr>shaderBuilder = sb12, uniformMap = uniformMap',
           clippingPlanes = clippingPlanes', clippingPlanesLength = clippingPlanesLength'\<rparr>,
          primitive'))"

subsection \<open>Notation and reference definitions\<close>

text \<open>
  Projections of the constructed object onto the fragment stage of its builder, and a list
  that is present only under a condition.
\<close>

abbreviation only_if :: "bool \<Rightarrow> 'a list \<Rightarrow> 'a list" where
  "only_if b xs \<equiv> (if b then xs else [])"

abbreviation fragmentDefines :: "'a RenderResources \<Rightarrow> (string \<times> jsval) list" where
  "fragmentDefines r \<equiv> defineLines (fragmentShaderParts (shaderBuilder r))"

abbreviation fragmentLines :: "'a RenderResources \<Rightarrow> string list" where
  "fragmentLines r \<equiv> shaderLines (fragmentShaderParts (shaderBuilder r))"

abbreviation fragmentUniforms :: "'a RenderResources \<Rightarrow> (string \<times> string) list" where
  "fragmentUniforms r \<equiv> uniformLines (fragmentShaderParts (shaderBuilder r))"

text \<open>
  The define a single entry of the shape's define mapping stands for, in the words of the
  specification: an absent value gives no define, the value \<open>true\<close> gives a define with
  no substitution text, any other value gives a define with that value.
\<close>

definition shape_define_entry :: "string \<times> jsval \<Rightarrow> (string \<times> jsval) list" where
  "shape_define_entry e =
     (if snd e = JUndefined then []
      else if snd e = JBool True then [(fst e, JUndefined)]
      else [(fst e, snd e)])"

text \<open>
  \<open>appears_before a b ls\<close>: some occurrence of \<open>a\<close> in \<open>ls\<close> is followed, later in the
  list, by an occurrence of \<open>b\<close>.
\<close>

fun appears_before :: "'a \<Rightarrow> 'a \<Rightarrow> 'a list \<Rightarrow> bool" where
  "appears_before a b [] = False"
| "appears_before a b (x # xs) = ((x = a \<and> b \<in> set xs) \<or> appears_before a b xs)"

subsection \<open>Example inputs\<close>

text \<open>
  A library of distinct placeholder texts, a box primitive without clipping planes, depth
  test, padding or flags, whose custom shader declares two uniforms (one of them also in
  the primitive's own uniform map), and variations of it.
\<close>

definition test_library :: ShaderLibrary where
  "test_library =
     \<lparr>VoxelFS = ''VoxelFS'', VoxelVS = ''VoxelVS'', IntersectionUtils = ''IntersectionUtils'',
      IntersectDepth = ''IntersectDepth'', IntersectClippingPlanes = ''IntersectClippingPlanes'',
      IntersectBox = ''IntersectBox'', IntersectCylinder = ''IntersectCylinder'',
      IntersectEllipsoid = ''IntersectEllipsoid'', Intersection = ''Intersection'',
      convertUvToBox = ''convertUvToBox'', convertUvToCylinder = ''convertUvToCylinder'',
      convertUvToEllipsoid = ''convertUvToEllipsoid'', Octree = ''Octree'',
      Megatexture = ''Megatexture''\<rparr>"

definition test_primitive :: "nat VoxelPrimitive" where
  "test_primitive =
     \<lparr>prim_customShader =
        \<lparr>cs_uniformMap = [''u_tint'' \<mapsto> 1, ''u_custom'' \<mapsto> 3],
         cs_uniforms = [(''u_tint'', \<lparr>uniform_type = ''vec3''\<rparr>),
                        (''u_custom'', \<lparr>uniform_type = ''float''\<rparr>)],
         fragmentShaderText = ''void fragmentMain() {}''\<rparr>,
      prim_uniformMap = [''u_tint'' \<mapsto> 0, ''u_stepSize'' \<mapsto> 2],
      prim_clippingPlanes = None,
      prim_depthTest = False,
      prim_provider = \<lparr>shape = ''BOX''\<rparr>,
      prim_shape =
        \<lparr>shaderDefines = [(''BOX_INTERSECTION_INDEX'', JNum 0),
                           (''BOX_HAS_RENDER_BOUNDS'', JBool True),
                           (''BOX_IS_2D'', JUndefined)],
         shaderMaximumIntersectionsLength = 6\<rparr>,
      paddingBefore = Cartesian3 0 0 0,
      paddingAfter = Cartesian3 0 0 0,
      prim_useLogDepth = False,
      prim_jitter = False,
      prim_nearestSampling = False,
      prim_traversal = \<lparr>sampleCount = 64\<rparr>\<rparr>"

definition test_planes :: "bool \<Rightarrow> int \<Rightarrow> bool \<Rightarrow> ClippingPlaneCollection option" where
  "test_planes e n u = Some \<lparr>enabled = e, length_cp = n, unionClippingRegions = u\<rparr>"

definition sphere_primitive :: "nat VoxelPrimitive" where
  "sphere_primitive =
     test_primitive
       \<lparr>prim_provider := \<lparr>shape = ''SPHERE''\<rparr>,
        prim_shape := \<lparr>shaderDefines = [], shaderMaximumIntersectionsLength = 1\<rparr>\<rparr>"

definition padding_define_primitive :: "nat VoxelPrimitive" where
  "padding_define_primitive =
     test_primitive
       \<lparr>prim_shape := \<lparr>shaderDefines = [(''PADDING'', JBool True)],
                        shaderMaximumIntersectionsLength = 6\<rparr>\<rparr>"

section \<open>What each block of the constructor adds\<close>

text \<open>
  Every operation on the builder appends. Each block of the constructor is therefore
  characterised by the defines and lines it appends to the fragment stage.
\<close>

lemma addDefine_FRAGMENT:
  "addDefine k v FRAGMENT sb =
     sb\<lparr>fragmentShaderParts := (fragmentShaderParts sb)
          \<lparr>defineLines := defineLines (fragmentShaderParts sb) @ [(k, v)]\<rparr>\<rparr>"
  by (simp add: addDefine_def includesVertexShader_def includesFragmentShader_def)

lemma addUniform_FRAGMENT:
  "addUniform ty n FRAGMENT sb =
     sb\<lparr>fragmentShaderParts := (fragmentShaderParts sb)
          \<lparr>uniformLines := uniformLines (fragmentShaderParts sb) @ [(ty, n)]\<rparr>\<rparr>"
  by (simp add: addUniform_def includesVertexShader_def includesFragmentShader_def)

lemma addFragmentLines_eq:
  "addFragmentLines ls sb =
     sb\<lparr>fragmentShaderParts := (fragmentShaderParts sb)
          \<lparr>shaderLines := shaderLines (fragmentShaderParts sb) @ ls\<rparr>\<rparr>"
  by (simp add: addFragmentLines_def)

lemma addCustomShaderUniforms_eq:
  "addCustomShaderUniforms us sb =
     sb\<lparr>fragmentShaderParts := (fragmentShaderParts sb)
          \<lparr>uniformLines := uniformLines (fragmentShaderParts sb)
               @ map (\<lambda>(n, u). (uniform_type u, n)) us\<rparr>\<rparr>"
  unfolding addCustomShaderUniforms_def
  by (induction us arbitrary: sb) (simp_all add: addUniform_FRAGMENT split: prod.splits)

lemma addClippingPlanes_eq:
  "addClippingPlanes lib cp n sb =
     sb\<lparr>fragmentShaderParts := (fragmentShaderParts sb)
          \<lparr>defineLines := defineLines (fragmentShaderParts sb)
             @ only_if (n > 0)
                 ([(''CLIPPING_PLANES'', JUndefined), (''CLIPPING_PLANES_COUNT'', JNum n)]
                  @ only_if (getUnionClippingRegions cp) [(''CLIPPING_PLANES_UNION'', JUndefined)]),
           shaderLines := shaderLines (fragmentShaderParts sb)
             @ only_if (n > 0) [IntersectClippingPlanes lib]\<rparr>\<rparr>"
  by (simp add: addClippingPlanes_def addDefine_FRAGMENT addFragmentLines_eq Let_def)

lemma addDepthTest_eq:
  "addDepthTest lib depthTest sb =
     sb\<lparr>fragmentShaderParts := (fragmentShaderParts sb)
          \<lparr>defineLines := defineLines (fragmentShaderParts sb)
             @ only_if depthTest [(''DEPTH_TEST'', JUndefined)],
           shaderLines := shaderLines (fragmentShaderParts sb)
             @ only_if depthTest [IntersectDepth lib]\<rparr>\<rparr>"
  by (simp add: addDepthTest_def addDefine_FRAGMENT addFragmentLines_eq)

lemma addShape_eq:
  "addShape lib shapeType sb =
     sb\<lparr>fragmentShaderParts := (fragmentShaderParts sb)
          \<lparr>defineLines := defineLines (fragmentShaderParts sb)
             @ only_if (shapeType = ''BOX'') [(''SHAPE_BOX'', JUndefined)],
           shaderLines := shaderLines (fragmentShaderParts sb)
             @ (if shapeType = ''BOX''
                then [convertUvToBox lib, IntersectBox lib, Intersection lib]
                else if shapeType = ''CYLINDER''
                then [IntersectCylinder lib, Intersection lib, convertUvToCylinder lib]
                else if shapeType = ''ELLIPSOID''
                then [IntersectEllipsoid lib, Intersection lib, convertUvToEllipsoid lib]
                else [])\<rparr>\<rparr>"
  by (simp add: addShape_def addDefine_FRAGMENT addFragmentLines_eq)

lemma addShapeDefines_eq:
  "addShapeDefines ds sb =
     sb\<lparr>fragmentShaderParts := (fragmentShaderParts sb)
          \<lparr>defineLines := defineLines (fragmentShaderParts sb)
               @ concat (map shape_define_entry ds)\<rparr>\<rparr>"
  unfolding addShapeDefines_def
  by (induction ds arbitrary: sb)
     (simp_all add: addDefine_FRAGMENT defined_def shape_define_entry_def split: prod.splits)

lemma countIntersections_eq:
  "countIntersections M cp n depthTest sb =
     sb\<lparr>fragmentShaderParts := (fragmentShaderParts sb)
          \<lparr>defineLines := defineLines (fragmentShaderParts sb)
             @ only_if (n > 0) [(''CLIPPING_PLANES_INTERSECTION_INDEX'', JNum M)]
             @ only_if depthTest
                 [(''DEPTH_INTERSECTION_INDEX'',
                   JNum (M + (if n > 0 then (if n = 1 then 1 else if getUnionClippingRegions cp then 2 else 1) else 0)))]
             @ [(''INTERSECTION_COUNT'',
                 JNum (M + (if n > 0 then (if n = 1 then 1 else if getUnionClippingRegions cp then 2 else 1) else 0)
                         + (if depthTest then 1 else 0)))]\<rparr>\<rparr>"
  by (simp add: countIntersections_def addDefine_FRAGMENT Let_def)

lemma addAdditionalDefines_eq:
  "addAdditionalDefines before after useLogDepth jitter nearestSampling sb =
     sb\<lparr>fragmentShaderParts := (fragmentShaderParts sb)
          \<lparr>defineLines := defineLines (fragmentShaderParts sb)
             @ only_if (before \<noteq> Cartesian3_ZERO \<or> after \<noteq> Cartesian3_ZERO)
                 [(''PADDING'', JUndefined)]
             @ only_if useLogDepth [(''LOG_DEPTH_READ_ONLY'', JUndefined)]
             @ only_if jitter [(''JITTER'', JUndefined)]
             @ only_if nearestSampling [(''NEAREST_SAMPLING'', JUndefined)]\<rparr>\<rparr>"
  by (simp add: addAdditionalDefines_def addDefine_FRAGMENT Cartesian3_equals_def Let_def)

lemmas block_eqs =
  addDefine_FRAGMENT addUniform_FRAGMENT addCustomShaderUniforms_eq addShapeDefines_eq
  countIntersections_eq addFragmentLines_eq addClippingPlanes_eq addDepthTest_eq
  addShape_eq addAdditionalDefines_eq addVertexLines_def new_ShaderBuilder_def
  new_ShaderParts_def

section \<open>The constructed object\<close>

lemma build_snd:
  "snd (VoxelRenderResources lib p) =
     p\<lparr>prim_uniformMap := combine (prim_uniformMap p) (cs_uniformMap (prim_customShader p))\<rparr>"
  by (simp add: VoxelRenderResources_def Let_def)

lemma build_uniformMap:
  "uniformMap (fst (VoxelRenderResources lib p)) =
     combine (prim_uniformMap p) (cs_uniformMap (prim_customShader p))"
  by (simp add: VoxelRenderResources_def Let_def)

lemma build_clippingPlanes:
  "clippingPlanes (fst (VoxelRenderResources lib p)) = prim_clippingPlanes p"
  by (simp add: VoxelRenderResources_def Let_def)

lemma build_clippingPlanesLength:
  "clippingPlanesLength (fst (VoxelRenderResources lib p)) =
     getClippingPlanesLength (prim_clippingPlanes p)"
  by (simp add: VoxelRenderResources_def Let_def)

lemma build_vertex:
  "vertexShaderParts (shaderBuilder (fst (VoxelRenderResources lib p))) =
     \<lparr>uniformLines = [], defineLines = [], shaderLines = [VoxelVS lib]\<rparr>"
  by (simp add: VoxelRenderResources_def Let_def block_eqs split del: if_split cong del: if_weak_cong)

lemma build_fragmentUniforms:
  "fragmentUniforms (fst (VoxelRenderResources lib p)) =
     map (\<lambda>(n, u). (uniform_type u, n)) (cs_uniforms (prim_customShader p))
     @ [(''sampler2D'', ''u_megatextureTextures[METADATA_COUNT]'')]"
  by (simp add: VoxelRenderResources_def Let_def block_eqs split del: if_split cong del: if_weak_cong)

lemma build_fragmentLines:
  "fragmentLines (fst (VoxelRenderResources lib p)) =
     [fragmentShaderText (prim_customShader p), ''#line 0'', Octree lib,
      IntersectionUtils lib, Megatexture lib]
     @ only_if (getClippingPlanesLength (prim_clippingPlanes p) > 0)
         [IntersectClippingPlanes lib]
     @ only_if (prim_depthTest p) [IntersectDepth lib]
     @ (if shape (prim_provider p) = ''BOX''
        then [convertUvToBox lib, IntersectBox lib, Intersection lib]
        else if shape (prim_provider p) = ''CYLINDER''
        then [IntersectCylinder lib, Intersection lib, convertUvToCylinder lib]
        else if shape (prim_provider p) = ''ELLIPSOID''
        then [IntersectEllipsoid lib, Intersection lib, convertUvToEllipsoid lib]
        else [])
     @ [VoxelFS lib]"
  by (simp add: VoxelRenderResources_def Let_def block_eqs split del: if_split cong del: if_weak_cong)

lemma build_fragmentDefines:
  "fragmentDefines (fst (VoxelRenderResources lib p)) =
     only_if (getClippingPlanesLength (prim_clippingPlanes p) > 0)
       ([(''CLIPPING_PLANES'', JUndefined),
         (''CLIPPING_PLANES_COUNT'', JNum (getClippingPlanesLength (prim_clippingPlanes p)))]
        @ only_if (getUnionClippingRegions (prim_clippingPlanes p))
            [(''CLIPPING_PLANES_UNION'', JUndefined)])
     @ only_if (prim_depthTest p) [(''DEPTH_TEST'', JUndefined)]
     @ only_if (shape (prim_provider p) = ''BOX'') [(''SHAPE_BOX'', JUndefined)]
     @ concat (map shape_define_entry (shaderDefines (prim_shape p)))
     @ only_if (getClippingPlanesLength (prim_clippingPlanes p) > 0)
         [(''CLIPPING_PLANES_INTERSECTION_INDEX'',
           JNum (shaderMaximumIntersectionsLength (prim_shape p)))]
     @ only_if (prim_depthTest p)
         [(''DEPTH_INTERSECTION_INDEX'',
           JNum (shaderMaximumIntersectionsLength (prim_shape p)
                 + (if getClippingPlanesLength (prim_clippingPlanes p) > 0
                    then (if getClippingPlanesLength (prim_clippingPlanes p) = 1 then 1
                          else if getUnionClippingRegions (prim_clippingPlanes p) then 2
                          else 1)
                    else 0)))]
     @ [(''INTERSECTION_COUNT'',
         JNum (shaderMaximumIntersectionsLength (prim_shape p)
               + (if getClippingPlanesLength (prim_clippingPlanes p) > 0
                  then (if getClippingPlanesLength (prim_clippingPlanes p) = 1 then 1
                        else if getUnionClippingRegions (prim_clippingPlanes p) then 2
                        else 1)
                  else 0)
               + (if prim_depthTest p then 1 else 0)))]
     @ only_if (paddingBefore p \<noteq> Cartesian3_ZERO \<or> paddingAfter p \<noteq> Cartesian3_ZERO)
         [(''PADDING'', JUndefined)]
     @ only_if (prim_useLogDepth p) [(''LOG_DEPTH_READ_ONLY'', JUndefined)]
     @ only_if (prim_jitter p) [(''JITTER'', JUndefined)]
     @ only_if (prim_nearestSampling p) [(''NEAREST_SAMPLING'', JUndefined)]
     @ [(''SAMPLE_COUNT'', JStr (template_literal (sampleCount (prim_traversal p))))]"
  by (simp add: VoxelRenderResources_def Let_def block_eqs split del: if_split cong del: if_weak_cong)

lemma build_shaderBuilder_cong:
  assumes "vertexShaderParts (shaderBuilder r) = vertexShaderParts (shaderBuilder r')"
    and "uniformLines (fragmentShaderParts (shaderBuilder r)) = uniformLines (fragmentShaderParts (shaderBuilder r'))"
    and "defineLines (fragmentShaderParts (shaderBuilder r)) = defineLines (fragmentShaderParts (shaderBuilder r'))"
    and "shaderLines (fragmentShaderParts (shaderBuilder r)) = shaderLines (fragmentShaderParts (shaderBuilder r'))"
  shows "shaderBuilder r = shaderBuilder r'"
  using assms by (simp add: ShaderBuilder.equality ShaderParts.equality)

subsection \<open>Auxiliary facts\<close>

lemma map_add_twice: "(c ++ c) ++ m = c ++ m"
  by (rule ext) (simp add: map_add_def split: option.splits)

lemma getClippingPlanesLength_pos:
  "getClippingPlanesLength cp > 0 \<longleftrightarrow> (\<exists>c. cp = Some c \<and> enabled c \<and> length_cp c > 0)"
  by (simp add: getClippingPlanesLength_def split: option.splits)

lemma getClippingPlanesLength_disabled:
  "cp = None \<or> (\<exists>c. cp = Some c \<and> \<not> enabled c) \<Longrightarrow> getClippingPlanesLength cp = 0"
  by (auto simp: getClippingPlanesLength_def)

lemma shape_define_entry_names:
  "k \<notin> fst ` set ds \<Longrightarrow> k \<notin> fst ` set (concat (map shape_define_entry ds))"
  by (induction ds) (auto simp: shape_define_entry_def split: if_splits)

lemma name_in_append:
  "k \<in> fst ` set (xs @ ys) \<longleftrightarrow> k \<in> fst ` set xs \<or> k \<in> fst ` set ys"
  by auto

lemma name_in_only_if:
  "k \<in> fst ` set (only_if b xs) \<longleftrightarrow> b \<and> k \<in> fst ` set xs"
  by (cases b) simp_all

lemma appears_before_decomp:
  "appears_before a b ls \<longleftrightarrow> (\<exists>xs ys zs. ls = xs @ a # ys @ b # zs)"
proof (induction ls)
  case Nil
  then show ?case by simp
next
  case (Cons x ls)
  show ?case
  proof
    assume "appears_before a b (x # ls)"
    then consider "x = a" "b \<in> set ls" | "appears_before a b ls"
      by auto
    then show "\<exists>xs ys zs. x # ls = xs @ a # ys @ b # zs"
    proof cases
      case 1
      then obtain ys zs where "ls = ys @ b # zs"
        by (auto simp: in_set_conv_decomp)
      with 1 have "x # ls = [] @ a # ys @ b # zs" by simp
      then show ?thesis by blast
    next
      case 2
      with Cons.IH obtain xs ys zs where "ls = xs @ a # ys @ b # zs" by blast
      then have "x # ls = (x # xs) @ a # ys @ b # zs" by simp
      then show ?thesis by blast
    qed
  next
    assume "\<exists>xs ys zs. x # ls = xs @ a # ys @ b # zs"
    then obtain xs ys zs where eq: "x # ls = xs @ a # ys @ b # zs" by blast
    show "appears_before a b (x # ls)"
    proof (cases xs)
      case Nil
      with eq show ?thesis by simp
    next
      case (Cons x' xs')
      with eq have "ls = xs' @ a # ys @ b # zs" by simp
      with Cons.IH have "appears_before a b ls" by blast
      then show ?thesis by simp
    qed
  qed
qed

lemma appears_before_append:
  "appears_before a b ys \<Longrightarrow> appears_before a b (xs @ ys)"
  by (induction xs) simp_all

section \<open>Claims\<close>

subsection \<open>C1: allocation of the intersection slots\<close>

text \<open>
  Claim C1. The allocation starts a counter at the shape's
  \<open>shaderMaximumIntersectionsLength\<close> \<open>M\<close>. If clipping is enabled (the reported
  number of clipping planes is positive) the define \<open>CLIPPING_PLANES_INTERSECTION_INDEX\<close>
  carries the current counter, \<open>M\<close>, and the counter advances by 1 for exactly one plane,
  by 2 for several planes in union mode, and by 1 otherwise. If depth testing is enabled
  the define \<open>DEPTH_INTERSECTION_INDEX\<close> carries the current counter, which then
  advances by 1. The final counter is the value of the define \<open>INTERSECTION_COUNT\<close>.
  The three defines are emitted next to each other in this order, clipping before depth.
\<close>

theorem intersection_slot_allocation:
  "let r = fst (VoxelRenderResources lib p);
       M = shaderMaximumIntersectionsLength (prim_shape p);
       n = clippingPlanesLength r;
       union = getUnionClippingRegions (prim_clippingPlanes p);
       afterClipping = (if n > 0
                        then (if n = 1 then M + 1 else if union then M + 2 else M + 1)
                        else M);
       total = (if prim_depthTest p then afterClipping + 1 else afterClipping)
   in (n > 0 \<longrightarrow>
         (''CLIPPING_PLANES_INTERSECTION_INDEX'', JNum M) \<in> set (fragmentDefines r)) \<and>
      (prim_depthTest p \<longrightarrow>
         (''DEPTH_INTERSECTION_INDEX'', JNum afterClipping) \<in> set (fragmentDefines r)) \<and>
      (''INTERSECTION_COUNT'', JNum total) \<in> set (fragmentDefines r) \<and>
      (\<exists>before after.
         fragmentDefines r =
           before
           @ only_if (n > 0) [(''CLIPPING_PLANES_INTERSECTION_INDEX'', JNum M)]
           @ only_if (prim_depthTest p) [(''DEPTH_INTERSECTION_INDEX'', JNum afterClipping)]
           @ [(''INTERSECTION_COUNT'', JNum total)]
           @ after)"
proof -
  let ?r = "fst (VoxelRenderResources lib p)"
  let ?M = "shaderMaximumIntersectionsLength (prim_shape p)"
  let ?n = "getClippingPlanesLength (prim_clippingPlanes p)"
  let ?a = "if ?n > 0
            then (if ?n = 1 then ?M + 1
                  else if getUnionClippingRegions (prim_clippingPlanes p) then ?M + 2
                  else ?M + 1)
            else ?M"
  let ?t = "if prim_depthTest p then ?a + 1 else ?a"
  let ?c = "only_if (?n > 0) [(''CLIPPING_PLANES_INTERSECTION_INDEX'', JNum ?M)]"
  let ?d = "only_if (prim_depthTest p) [(''DEPTH_INTERSECTION_INDEX'', JNum ?a)]"
  let ?i = "[(''INTERSECTION_COUNT'', JNum ?t)]"
  let ?before = "only_if (?n > 0)
       ([(''CLIPPING_PLANES'', JUndefined), (''CLIPPING_PLANES_COUNT'', JNum ?n)]
        @ only_if (getUnionClippingRegions (prim_clippingPlanes p))
            [(''CLIPPING_PLANES_UNION'', JUndefined)])
     @ only_if (prim_depthTest p) [(''DEPTH_TEST'', JUndefined)]
     @ only_if (shape (prim_provider p) = ''BOX'') [(''SHAPE_BOX'', JUndefined)]
     @ concat (map shape_define_entry (shaderDefines (prim_shape p)))"
  let ?after = "only_if (paddingBefore p \<noteq> Cartesian3_ZERO \<or> paddingAfter p \<noteq> Cartesian3_ZERO)
         [(''PADDING'', JUndefined)]
     @ only_if (prim_useLogDepth p) [(''LOG_DEPTH_READ_ONLY'', JUndefined)]
     @ only_if (prim_jitter p) [(''JITTER'', JUndefined)]
     @ only_if (prim_nearestSampling p) [(''NEAREST_SAMPLING'', JUndefined)]
     @ [(''SAMPLE_COUNT'', JStr (template_literal (sampleCount (prim_traversal p))))]"
  have eq: "fragmentDefines ?r = ?before @ ?c @ ?d @ ?i @ ?after"
    unfolding build_fragmentDefines
    by (cases "?n > 0"; cases "prim_depthTest p"; simp)
  have c: "?n > 0 \<longrightarrow> (''CLIPPING_PLANES_INTERSECTION_INDEX'', JNum ?M) \<in> set (fragmentDefines ?r)"
    unfolding eq by simp
  have d: "prim_depthTest p \<longrightarrow> (''DEPTH_INTERSECTION_INDEX'', JNum ?a) \<in> set (fragmentDefines ?r)"
    unfolding eq by simp
  have t: "(''INTERSECTION_COUNT'', JNum ?t) \<in> set (fragmentDefines ?r)"
    unfolding eq by simp
  have e: "\<exists>before after. fragmentDefines ?r = before @ ?c @ ?d @ ?i @ after"
    using eq by blast
  show ?thesis
    unfolding Let_def build_clippingPlanesLength
    by (intro conjI c d t e)
qed

text \<open>
  The four scenarios of the specification at \<open>M = 6\<close>: no clipping and no depth test
  (total 6); one plane (index 6, total 7); three planes in union mode (index 6, total 8);
  three planes in intersection mode with depth test (indices 6 and 7, total 8).
\<close>

theorem intersection_slot_allocation_witness:
  "(''INTERSECTION_COUNT'', JNum 6)
     \<in> set (fragmentDefines (fst (VoxelRenderResources test_library test_primitive))) \<and>
   ((''CLIPPING_PLANES_INTERSECTION_INDEX'', JNum 6)
     \<in> set (fragmentDefines (fst (VoxelRenderResources test_library
           (test_primitive\<lparr>prim_clippingPlanes := test_planes True 1 False\<rparr>)))) \<and>
    (''INTERSECTION_COUNT'', JNum 7)
     \<in> set (fragmentDefines (fst (VoxelRenderResources test_library
           (test_primitive\<lparr>prim_clippingPlanes := test_planes True 1 False\<rparr>))))) \<and>
   ((''CLIPPING_PLANES_INTERSECTION_INDEX'', JNum 6)
     \<in> set (fragmentDefines (fst (VoxelRenderResources test_library
           (test_primitive\<lparr>prim_clippingPlanes := test_planes True 3 True\<rparr>)))) \<and>
    (''INTERSECTION_COUNT'', JNum 8)
     \<in> set (fragmentDefines (fst (VoxelRenderResources test_library
           (test_primitive\<lparr>prim_clippingPlanes := test_planes True 3 True\<rparr>))))) \<and>
   ((''CLIPPING_PLANES_INTERSECTION_INDEX'', JNum 6)
     \<in> set (fragmentDefines (fst (VoxelRenderResources test_library
           (test_primitive\<lparr>prim_clippingPlanes := test_planes True 3 False,
                           prim_depthTest := True\<rparr>)))) \<and>
    (''DEPTH_INTERSECTION_INDEX'', JNum 7)
     \<in> set (fragmentDefines (fst (VoxelRenderResources test_library
           (test_primitive\<lparr>prim_clippingPlanes := test_planes True 3 False,
                           prim_depthTest := True\<rparr>)))) \<and>
    (''INTERSECTION_COUNT'', JNum 8)
     \<in> set (fragmentDefines (fst (VoxelRenderResources test_library
           (test_primitive\<lparr>prim_clippingPlanes := test_planes True 3 False,
                           prim_depthTest := True\<rparr>)))))"
  using intersection_slot_allocation [of test_library test_primitive]
    intersection_slot_allocation
      [of test_library "test_primitive\<lparr>prim_clippingPlanes := test_planes True 1 False\<rparr>"]
    intersection_slot_allocation
      [of test_library "test_primitive\<lparr>prim_clippingPlanes := test_planes True 3 True\<rparr>"]
    intersection_slot_allocation
      [of test_library "test_primitive\<lparr>prim_clippingPlanes := test_planes True 3 False,
                           prim_depthTest := True\<rparr>"]
  by (simp add: Let_def build_clippingPlanesLength getClippingPlanesLength_def
        getUnionClippingRegions_def test_primitive_def test_planes_def)

subsection \<open>C2: effect on the primitive\<close>

text \<open>
  The constructor assigns the merged uniform map to the primitive (line 46). For the
  example primitive, whose custom shader has the uniform \<open>u_custom\<close> that the primitive's
  own map lacks, the primitive after the build differs from the primitive before it.
  Either precedence of the merge gives this difference: the key is on one side only.
\<close>

theorem build_assigns_uniformMap_counterexample:
  "snd (VoxelRenderResources test_library test_primitive) \<noteq> test_primitive"
proof
  assume "snd (VoxelRenderResources test_library test_primitive) = test_primitive"
  then have "prim_uniformMap (snd (VoxelRenderResources test_library test_primitive)) ''u_custom''
               = prim_uniformMap test_primitive ''u_custom''"
    by simp
  then show False
    by (simp add: build_snd combine_def test_primitive_def)
qed

text \<open>
  Claim C2, amended. One invocation of the constructor leaves every field of the
  primitive unchanged except its uniform map, which is replaced by the merged uniform
  map that the constructed object also holds.
\<close>

theorem build_frame:
  "snd (VoxelRenderResources lib p) =
     p\<lparr>prim_uniformMap := uniformMap (fst (VoxelRenderResources lib p))\<rparr> \<and>
   uniformMap (fst (VoxelRenderResources lib p)) =
     combine (prim_uniformMap p) (cs_uniformMap (prim_customShader p))"
  by (simp add: build_snd build_uniformMap)

theorem build_frame_witness:
  "prim_uniformMap (snd (VoxelRenderResources test_library test_primitive)) ''u_custom'' = Some 3 \<and>
   prim_uniformMap (snd (VoxelRenderResources test_library test_primitive)) ''u_stepSize'' = Some 2 \<and>
   prim_depthTest (snd (VoxelRenderResources test_library test_primitive))
     = prim_depthTest test_primitive \<and>
   prim_shape (snd (VoxelRenderResources test_library test_primitive))
     = prim_shape test_primitive"
proof -
  have "snd (VoxelRenderResources test_library test_primitive) =
          test_primitive\<lparr>prim_uniformMap :=
            combine (prim_uniformMap test_primitive)
              (cs_uniformMap (prim_customShader test_primitive))\<rparr>"
    using build_frame [of test_library test_primitive] by simp
  then show ?thesis
    by (simp add: combine_def test_primitive_def)
qed

subsection \<open>C3: precedence in the merged uniform map\<close>




subsection \<open>C4: unrecognised shape kind\<close>

text \<open>
  The chain of comparisons at lines 125-144 has no final branch. For a primitive whose
  provider names the shape \<open>SPHERE\<close> the constructor completes: it returns a builder
  whose fragment stage holds the baseline lines and \<open>VoxelFS\<close> and no shape fragment.
\<close>

theorem unrecognized_shape_counterexample:
  "shape (prim_provider sphere_primitive) \<notin> {''BOX'', ''CYLINDER'', ''ELLIPSOID''} \<and>
   fragmentLines (fst (VoxelRenderResources test_library sphere_primitive)) =
     [''void fragmentMain() {}'', ''#line 0'', ''Octree'', ''IntersectionUtils'',
      ''Megatexture'', ''VoxelFS''] \<and>
   fragmentDefines (fst (VoxelRenderResources test_library sphere_primitive)) =
     [(''INTERSECTION_COUNT'', JNum 1), (''SAMPLE_COUNT'', JStr ''64'')]"
  by (simp add: build_fragmentLines build_fragmentDefines sphere_primitive_def
        test_primitive_def test_library_def getClippingPlanesLength_def
        getUnionClippingRegions_def Cartesian3_ZERO_def template_literal_def
        decimal_nat.simps)

text \<open>
  Claim C4, amended. For a shape kind other than \<open>BOX\<close>, \<open>CYLINDER\<close> and
  \<open>ELLIPSOID\<close> the constructor raises no error. It completes, and the fragment stage
  holds no shape fragment: the custom shader text, \<open>#line 0\<close>, \<open>Octree\<close>,
  \<open>IntersectionUtils\<close>, \<open>Megatexture\<close>, the clipping fragment and the depth fragment when
  enabled, and \<open>VoxelFS\<close>.
\<close>

theorem unrecognized_shape_completes:
  "shape (prim_provider p) \<notin> {''BOX'', ''CYLINDER'', ''ELLIPSOID''} \<Longrightarrow>
   fragmentLines (fst (VoxelRenderResources lib p)) =
     [fragmentShaderText (prim_customShader p), ''#line 0'', Octree lib,
      IntersectionUtils lib, Megatexture lib]
     @ only_if (clippingPlanesLength (fst (VoxelRenderResources lib p)) > 0)
         [IntersectClippingPlanes lib]
     @ only_if (prim_depthTest p) [IntersectDepth lib]
     @ [VoxelFS lib]"
  by (simp add: build_fragmentLines build_clippingPlanesLength)

theorem unrecognized_shape_completes_witness:
  "shape (prim_provider sphere_primitive) \<notin> {''BOX'', ''CYLINDER'', ''ELLIPSOID''} \<and>
   fragmentLines (fst (VoxelRenderResources test_library sphere_primitive)) =
     [''void fragmentMain() {}'', ''#line 0'', ''Octree'', ''IntersectionUtils'',
      ''Megatexture'', ''VoxelFS'']"
proof -
  have h: "shape (prim_provider sphere_primitive) \<notin> {''BOX'', ''CYLINDER'', ''ELLIPSOID''}"
    by (simp add: sphere_primitive_def)
  show ?thesis
    using h unrecognized_shape_completes [OF h, of test_library]
    by (simp add: build_clippingPlanesLength getClippingPlanesLength_def
          sphere_primitive_def test_primitive_def test_library_def)
qed

subsection \<open>C5: order of the shape fragments\<close>

text \<open>
  Claim C5. For shape kind \<open>BOX\<close> the conversion fragment \<open>convertUvToBox\<close> appears
  before the intersection fragment \<open>IntersectBox\<close> in the fragment-stage lines; for
  \<open>CYLINDER\<close> and \<open>ELLIPSOID\<close> the intersection fragment appears before the conversion
  fragment.
\<close>

theorem shape_fragment_order:
  "(shape (prim_provider p) = ''BOX'' \<longrightarrow>
      appears_before (convertUvToBox lib) (IntersectBox lib)
        (fragmentLines (fst (VoxelRenderResources lib p)))) \<and>
   (shape (prim_provider p) = ''CYLINDER'' \<longrightarrow>
      appears_before (IntersectCylinder lib) (convertUvToCylinder lib)
        (fragmentLines (fst (VoxelRenderResources lib p)))) \<and>
   (shape (prim_provider p) = ''ELLIPSOID'' \<longrightarrow>
      appears_before (IntersectEllipsoid lib) (convertUvToEllipsoid lib)
        (fragmentLines (fst (VoxelRenderResources lib p))))"
proof -
  let ?pre = "[fragmentShaderText (prim_customShader p), ''#line 0'', Octree lib,
      IntersectionUtils lib, Megatexture lib]
     @ only_if (getClippingPlanesLength (prim_clippingPlanes p) > 0)
         [IntersectClippingPlanes lib]
     @ only_if (prim_depthTest p) [IntersectDepth lib]"
  let ?ls = "fragmentLines (fst (VoxelRenderResources lib p))"
  have box: "?ls = ?pre @ [convertUvToBox lib, IntersectBox lib, Intersection lib, VoxelFS lib]"
    if "shape (prim_provider p) = ''BOX''"
    using that by (simp add: build_fragmentLines)
  have cyl: "?ls = ?pre @ [IntersectCylinder lib, Intersection lib, convertUvToCylinder lib, VoxelFS lib]"
    if "shape (prim_provider p) = ''CYLINDER''"
    using that by (simp add: build_fragmentLines)
  have ell: "?ls = ?pre @ [IntersectEllipsoid lib, Intersection lib, convertUvToEllipsoid lib, VoxelFS lib]"
    if "shape (prim_provider p) = ''ELLIPSOID''"
    using that by (simp add: build_fragmentLines)
  show ?thesis
  proof (intro conjI impI)
    assume s: "shape (prim_provider p) = ''BOX''"
    show "appears_before (convertUvToBox lib) (IntersectBox lib) ?ls"
      unfolding box [OF s] by (rule appears_before_append) simp
  next
    assume s: "shape (prim_provider p) = ''CYLINDER''"
    show "appears_before (IntersectCylinder lib) (convertUvToCylinder lib) ?ls"
      unfolding cyl [OF s] by (rule appears_before_append) simp
  next
    assume s: "shape (prim_provider p) = ''ELLIPSOID''"
    show "appears_before (IntersectEllipsoid lib) (convertUvToEllipsoid lib) ?ls"
      unfolding ell [OF s] by (rule appears_before_append) simp
  qed
qed

theorem shape_fragment_order_witness:
  "shape (prim_provider test_primitive) = ''BOX'' \<and>
   appears_before (convertUvToBox test_library) (IntersectBox test_library)
     (fragmentLines (fst (VoxelRenderResources test_library test_primitive))) \<and>
   shape (prim_provider (test_primitive\<lparr>prim_provider := \<lparr>shape = ''CYLINDER''\<rparr>\<rparr>))
     = ''CYLINDER'' \<and>
   appears_before (IntersectCylinder test_library) (convertUvToCylinder test_library)
     (fragmentLines (fst (VoxelRenderResources test_library
        (test_primitive\<lparr>prim_provider := \<lparr>shape = ''CYLINDER''\<rparr>\<rparr>)))) \<and>
   shape (prim_provider (test_primitive\<lparr>prim_provider := \<lparr>shape = ''ELLIPSOID''\<rparr>\<rparr>))
     = ''ELLIPSOID'' \<and>
   appears_before (IntersectEllipsoid test_library) (convertUvToEllipsoid test_library)
     (fragmentLines (fst (VoxelRenderResources test_library
        (test_primitive\<lparr>prim_provider := \<lparr>shape = ''ELLIPSOID''\<rparr>\<rparr>))))"
  using shape_fragment_order [where p = test_primitive and lib = test_library]
    shape_fragment_order
      [where p = "test_primitive\<lparr>prim_provider := \<lparr>shape = ''CYLINDER''\<rparr>\<rparr>"
         and lib = test_library]
    shape_fragment_order
      [where p = "test_primitive\<lparr>prim_provider := \<lparr>shape = ''ELLIPSOID''\<rparr>\<rparr>"
         and lib = test_library]
  by (simp add: test_primitive_def)

subsection \<open>C6: conditional defines\<close>

text \<open>
  The shape's define mapping is added to the same fragment-stage defines (lines 149-160)
  under whatever names it has. A shape whose mapping has the entry \<open>PADDING: true\<close>
  gives a \<open>PADDING\<close> define although both padding vectors are zero.
\<close>

theorem shape_define_named_PADDING_counterexample:
  "paddingBefore padding_define_primitive = Cartesian3_ZERO \<and>
   paddingAfter padding_define_primitive = Cartesian3_ZERO \<and>
   ''PADDING'' \<in> set (map fst (fragmentDefines
       (fst (VoxelRenderResources test_library padding_define_primitive))))"
  by (simp add: build_fragmentDefines padding_define_primitive_def test_primitive_def
        shape_define_entry_def Cartesian3_ZERO_def)

text \<open>
  Claim C6, amended. Provided the shape's define mapping has none of the keys
  \<open>PADDING\<close>, \<open>LOG_DEPTH_READ_ONLY\<close>, \<open>JITTER\<close>, \<open>NEAREST_SAMPLING\<close>, \<open>DEPTH_TEST\<close>,
  \<open>CLIPPING_PLANES\<close>, \<open>DEPTH_INTERSECTION_INDEX\<close> and
  \<open>CLIPPING_PLANES_INTERSECTION_INDEX\<close>: the \<open>PADDING\<close> define is present iff
  \<open>paddingBefore\<close> or \<open>paddingAfter\<close> is not zero; \<open>JITTER\<close>, \<open>NEAREST_SAMPLING\<close> and
  \<open>LOG_DEPTH_READ_ONLY\<close> are present iff their flags are set; \<open>DEPTH_TEST\<close> and the
  depth slot index are present iff depth testing is enabled; \<open>CLIPPING_PLANES\<close> and the
  clipping slot index are present iff the clipping collection is defined, enabled and
  has a positive count. The constructor adds the depth fragment only when depth testing
  is enabled and the clipping fragment only when clipping is enabled: the fragment-stage
  lines are exactly the baseline lines, these two fragments under their conditions, the
  shape's fragments and \<open>VoxelFS\<close>.
\<close>

theorem conditional_defines:
  assumes "set (map fst (shaderDefines (prim_shape p)))
             \<inter> {''PADDING'', ''LOG_DEPTH_READ_ONLY'', ''JITTER'', ''NEAREST_SAMPLING'',
                  ''DEPTH_TEST'', ''CLIPPING_PLANES'', ''DEPTH_INTERSECTION_INDEX'',
                  ''CLIPPING_PLANES_INTERSECTION_INDEX''} = {}"
  shows "let r = fst (VoxelRenderResources lib p);
             names = set (map fst (fragmentDefines r));
             clipping = (\<exists>c. prim_clippingPlanes p = Some c \<and> enabled c \<and> length_cp c > 0)
         in (''PADDING'' \<in> names \<longleftrightarrow>
               paddingBefore p \<noteq> Cartesian3_ZERO \<or> paddingAfter p \<noteq> Cartesian3_ZERO) \<and>
            (''JITTER'' \<in> names \<longleftrightarrow> prim_jitter p) \<and>
            (''NEAREST_SAMPLING'' \<in> names \<longleftrightarrow> prim_nearestSampling p) \<and>
            (''LOG_DEPTH_READ_ONLY'' \<in> names \<longleftrightarrow> prim_useLogDepth p) \<and>
            (''DEPTH_TEST'' \<in> names \<longleftrightarrow> prim_depthTest p) \<and>
            (''CLIPPING_PLANES'' \<in> names \<longleftrightarrow> clipping) \<and>
            (''DEPTH_INTERSECTION_INDEX'' \<in> names \<longleftrightarrow> prim_depthTest p) \<and>
            (''CLIPPING_PLANES_INTERSECTION_INDEX'' \<in> names \<longleftrightarrow> clipping) \<and>
            fragmentLines r =
              [fragmentShaderText (prim_customShader p), ''#line 0'', Octree lib,
               IntersectionUtils lib, Megatexture lib]
              @ only_if clipping [IntersectClippingPlanes lib]
              @ only_if (prim_depthTest p) [IntersectDepth lib]
              @ (if shape (prim_provider p) = ''BOX''
                 then [convertUvToBox lib, IntersectBox lib, Intersection lib]
                 else if shape (prim_provider p) = ''CYLINDER''
                 then [IntersectCylinder lib, Intersection lib, convertUvToCylinder lib]
                 else if shape (prim_provider p) = ''ELLIPSOID''
                 then [IntersectEllipsoid lib, Intersection lib, convertUvToEllipsoid lib]
                 else [])
              @ [VoxelFS lib]"
proof -
  let ?ds = "shaderDefines (prim_shape p)"
  let ?sd = "fst ` set (concat (map shape_define_entry ?ds))"
  let ?names = "fst ` set (fragmentDefines (fst (VoxelRenderResources lib p)))"
  let ?clipping = "\<exists>c. prim_clippingPlanes p = Some c \<and> enabled c \<and> length_cp c > 0"
  have n1: "''PADDING'' \<notin> ?sd" using assms by (intro shape_define_entry_names) auto
  have n2: "''LOG_DEPTH_READ_ONLY'' \<notin> ?sd" using assms by (intro shape_define_entry_names) auto
  have n3: "''JITTER'' \<notin> ?sd" using assms by (intro shape_define_entry_names) auto
  have n4: "''NEAREST_SAMPLING'' \<notin> ?sd" using assms by (intro shape_define_entry_names) auto
  have n5: "''DEPTH_TEST'' \<notin> ?sd" using assms by (intro shape_define_entry_names) auto
  have n6: "''CLIPPING_PLANES'' \<notin> ?sd" using assms by (intro shape_define_entry_names) auto
  have n7: "''DEPTH_INTERSECTION_INDEX'' \<notin> ?sd"
    using assms by (intro shape_define_entry_names) auto
  have n8: "''CLIPPING_PLANES_INTERSECTION_INDEX'' \<notin> ?sd"
    using assms by (intro shape_define_entry_names) auto
  note names_simps = build_fragmentDefines name_in_append name_in_only_if
  have c1: "''PADDING'' \<in> ?names \<longleftrightarrow>
      paddingBefore p \<noteq> Cartesian3_ZERO \<or> paddingAfter p \<noteq> Cartesian3_ZERO"
    unfolding names_simps using n1 by (simp del: set_concat)
  have c2: "''JITTER'' \<in> ?names \<longleftrightarrow> prim_jitter p"
    unfolding names_simps using n3 by (simp del: set_concat)
  have c3: "''NEAREST_SAMPLING'' \<in> ?names \<longleftrightarrow> prim_nearestSampling p"
    unfolding names_simps using n4 by (simp del: set_concat)
  have c4: "''LOG_DEPTH_READ_ONLY'' \<in> ?names \<longleftrightarrow> prim_useLogDepth p"
    unfolding names_simps using n2 by (simp del: set_concat)
  have c5: "''DEPTH_TEST'' \<in> ?names \<longleftrightarrow> prim_depthTest p"
    unfolding names_simps using n5 by (simp del: set_concat)
  have c6: "''CLIPPING_PLANES'' \<in> ?names \<longleftrightarrow> ?clipping"
    unfolding names_simps getClippingPlanesLength_pos using n6 by (simp del: set_concat)
  have c7: "''DEPTH_INTERSECTION_INDEX'' \<in> ?names \<longleftrightarrow> prim_depthTest p"
    unfolding names_simps using n7 by (simp del: set_concat)
  have c8: "''CLIPPING_PLANES_INTERSECTION_INDEX'' \<in> ?names \<longleftrightarrow> ?clipping"
    unfolding names_simps getClippingPlanesLength_pos using n8 by (simp del: set_concat)
  have c9: "fragmentLines (fst (VoxelRenderResources lib p)) =
              [fragmentShaderText (prim_customShader p), ''#line 0'', Octree lib,
               IntersectionUtils lib, Megatexture lib]
              @ only_if ?clipping [IntersectClippingPlanes lib]
              @ only_if (prim_depthTest p) [IntersectDepth lib]
              @ (if shape (prim_provider p) = ''BOX''
                 then [convertUvToBox lib, IntersectBox lib, Intersection lib]
                 else if shape (prim_provider p) = ''CYLINDER''
                 then [IntersectCylinder lib, Intersection lib, convertUvToCylinder lib]
                 else if shape (prim_provider p) = ''ELLIPSOID''
                 then [IntersectEllipsoid lib, Intersection lib, convertUvToEllipsoid lib]
                 else [])
              @ [VoxelFS lib]"
    unfolding build_fragmentLines getClippingPlanesLength_pos ..
  show ?thesis
    unfolding Let_def set_map
    by (intro conjI c1 c2 c3 c4 c5 c6 c7 c8 c9)
qed

theorem conditional_defines_witness:
  "set (map fst (shaderDefines (prim_shape test_primitive)))
     \<inter> {''PADDING'', ''LOG_DEPTH_READ_ONLY'', ''JITTER'', ''NEAREST_SAMPLING'',
          ''DEPTH_TEST'', ''CLIPPING_PLANES'', ''DEPTH_INTERSECTION_INDEX'',
          ''CLIPPING_PLANES_INTERSECTION_INDEX''} = {} \<and>
   ''JITTER'' \<in> set (map fst (fragmentDefines (fst (VoxelRenderResources test_library
       (test_primitive\<lparr>prim_depthTest := True, prim_jitter := True\<rparr>))))) \<and>
   ''DEPTH_TEST'' \<in> set (map fst (fragmentDefines (fst (VoxelRenderResources test_library
       (test_primitive\<lparr>prim_depthTest := True, prim_jitter := True\<rparr>))))) \<and>
   ''DEPTH_INTERSECTION_INDEX'' \<in> set (map fst (fragmentDefines (fst (VoxelRenderResources
       test_library (test_primitive\<lparr>prim_depthTest := True, prim_jitter := True\<rparr>))))) \<and>
   ''PADDING'' \<notin> set (map fst (fragmentDefines (fst (VoxelRenderResources test_library
       (test_primitive\<lparr>prim_depthTest := True, prim_jitter := True\<rparr>))))) \<and>
   ''CLIPPING_PLANES'' \<notin> set (map fst (fragmentDefines (fst (VoxelRenderResources test_library
       (test_primitive\<lparr>prim_depthTest := True, prim_jitter := True\<rparr>))))) \<and>
   ''PADDING'' \<in> set (map fst (fragmentDefines (fst (VoxelRenderResources test_library
       (test_primitive\<lparr>paddingAfter := Cartesian3 1 1 1\<rparr>)))))"
proof -
  have h: "set (map fst (shaderDefines (prim_shape test_primitive)))
     \<inter> {''PADDING'', ''LOG_DEPTH_READ_ONLY'', ''JITTER'', ''NEAREST_SAMPLING'',
          ''DEPTH_TEST'', ''CLIPPING_PLANES'', ''DEPTH_INTERSECTION_INDEX'',
          ''CLIPPING_PLANES_INTERSECTION_INDEX''} = {}"
    by (simp add: test_primitive_def)
  have h1: "set (map fst (shaderDefines (prim_shape
              (test_primitive\<lparr>prim_depthTest := True, prim_jitter := True\<rparr>))))
     \<inter> {''PADDING'', ''LOG_DEPTH_READ_ONLY'', ''JITTER'', ''NEAREST_SAMPLING'',
          ''DEPTH_TEST'', ''CLIPPING_PLANES'', ''DEPTH_INTERSECTION_INDEX'',
          ''CLIPPING_PLANES_INTERSECTION_INDEX''} = {}"
    by (simp add: test_primitive_def)
  have h2: "set (map fst (shaderDefines (prim_shape
              (test_primitive\<lparr>paddingAfter := Cartesian3 1 1 1\<rparr>))))
     \<inter> {''PADDING'', ''LOG_DEPTH_READ_ONLY'', ''JITTER'', ''NEAREST_SAMPLING'',
          ''DEPTH_TEST'', ''CLIPPING_PLANES'', ''DEPTH_INTERSECTION_INDEX'',
          ''CLIPPING_PLANES_INTERSECTION_INDEX''} = {}"
    by (simp add: test_primitive_def)
  show ?thesis
    using h conditional_defines [OF h1, of test_library]
      conditional_defines [OF h2, of test_library]
    by (simp add: Let_def test_primitive_def Cartesian3_ZERO_def)
qed

subsection \<open>C7: the shape's define mapping\<close>

text \<open>
  Claim C7. The loop over the shape's define mapping appends, for each entry in order,
  what \<open>shape_define_entry\<close> gives: nothing for the value \<open>undefined\<close>, a define
  with no substitution text for the value \<open>true\<close>, and a define with the entry's value
  otherwise. In the constructed object these defines stand between the defines added
  before the loop and those added after it, and a shape with an empty mapping gives
  exactly the surrounding defines.
\<close>

theorem shape_defines_suppression:
  "defineLines (fragmentShaderParts (addShapeDefines ds sb)) =
     defineLines (fragmentShaderParts sb) @ concat (map shape_define_entry ds) \<and>
   (\<exists>before after.
      fragmentDefines (fst (VoxelRenderResources lib p)) =
        before @ concat (map shape_define_entry (shaderDefines (prim_shape p))) @ after \<and>
      fragmentDefines (fst (VoxelRenderResources lib
          (p\<lparr>prim_shape := (prim_shape p)\<lparr>shaderDefines := []\<rparr>\<rparr>))) =
        before @ after)"
proof -
  let ?n = "getClippingPlanesLength (prim_clippingPlanes p)"
  let ?before = "only_if (?n > 0)
       ([(''CLIPPING_PLANES'', JUndefined), (''CLIPPING_PLANES_COUNT'', JNum ?n)]
        @ only_if (getUnionClippingRegions (prim_clippingPlanes p))
            [(''CLIPPING_PLANES_UNION'', JUndefined)])
     @ only_if (prim_depthTest p) [(''DEPTH_TEST'', JUndefined)]
     @ only_if (shape (prim_provider p) = ''BOX'') [(''SHAPE_BOX'', JUndefined)]"
  let ?q = "p\<lparr>prim_shape := (prim_shape p)\<lparr>shaderDefines := []\<rparr>\<rparr>"
  let ?M = "shaderMaximumIntersectionsLength (prim_shape p)"
  let ?adv = "if ?n > 0
              then (if ?n = 1 then 1
                    else if getUnionClippingRegions (prim_clippingPlanes p) then 2 else 1)
              else 0"
  let ?after = "only_if (?n > 0) [(''CLIPPING_PLANES_INTERSECTION_INDEX'', JNum ?M)]
     @ only_if (prim_depthTest p) [(''DEPTH_INTERSECTION_INDEX'', JNum (?M + ?adv))]
     @ [(''INTERSECTION_COUNT'', JNum (?M + ?adv + (if prim_depthTest p then 1 else 0)))]
     @ only_if (paddingBefore p \<noteq> Cartesian3_ZERO \<or> paddingAfter p \<noteq> Cartesian3_ZERO)
         [(''PADDING'', JUndefined)]
     @ only_if (prim_useLogDepth p) [(''LOG_DEPTH_READ_ONLY'', JUndefined)]
     @ only_if (prim_jitter p) [(''JITTER'', JUndefined)]
     @ only_if (prim_nearestSampling p) [(''NEAREST_SAMPLING'', JUndefined)]
     @ [(''SAMPLE_COUNT'', JStr (template_literal (sampleCount (prim_traversal p))))]"
  have a: "fragmentDefines (fst (VoxelRenderResources lib ?q)) = ?before @ ?after"
    by (simp add: build_fragmentDefines split del: if_split cong del: if_weak_cong)
  have b: "fragmentDefines (fst (VoxelRenderResources lib p)) =
        ?before @ concat (map shape_define_entry (shaderDefines (prim_shape p))) @ ?after"
    by (simp add: build_fragmentDefines split del: if_split cong del: if_weak_cong)
  have c: "defineLines (fragmentShaderParts (addShapeDefines ds sb)) =
     defineLines (fragmentShaderParts sb) @ concat (map shape_define_entry ds)"
    by (simp add: addShapeDefines_eq)
  from a b have "\<exists>before after.
      fragmentDefines (fst (VoxelRenderResources lib p)) =
        before @ concat (map shape_define_entry (shaderDefines (prim_shape p))) @ after \<and>
      fragmentDefines (fst (VoxelRenderResources lib ?q)) = before @ after"
    by blast
  with c show ?thesis by blast
qed

theorem shape_defines_suppression_witness:
  "defineLines (fragmentShaderParts (addShapeDefines
       [(''BOX_INTERSECTION_INDEX'', JNum 0), (''BOX_HAS_RENDER_BOUNDS'', JBool True),
        (''BOX_IS_2D'', JUndefined), (''BOX_FLAG'', JBool False), (''BOX_NAME'', JStr ''b'')]
       new_ShaderBuilder)) =
     [(''BOX_INTERSECTION_INDEX'', JNum 0), (''BOX_HAS_RENDER_BOUNDS'', JUndefined),
      (''BOX_FLAG'', JBool False), (''BOX_NAME'', JStr ''b'')]"
  using shape_defines_suppression
    [of "[(''BOX_INTERSECTION_INDEX'', JNum 0), (''BOX_HAS_RENDER_BOUNDS'', JBool True),
        (''BOX_IS_2D'', JUndefined), (''BOX_FLAG'', JBool False), (''BOX_NAME'', JStr ''b'')]"
      new_ShaderBuilder test_library test_primitive]
  by (simp add: shape_define_entry_def new_ShaderBuilder_def new_ShaderParts_def)

subsection \<open>C8: the reserved megatexture uniform\<close>

text \<open>
  Claim C8. Whatever the custom shader declares, the fragment-stage uniform
  declarations consist of the custom shader's uniforms followed by the declaration
  \<open>sampler2D u_megatextureTextures[METADATA_COUNT]\<close>.
\<close>

theorem megatexture_uniform_declared:
  "fragmentUniforms (fst (VoxelRenderResources lib p)) =
     map (\<lambda>(uniformName, uniform). (uniform_type uniform, uniformName))
       (cs_uniforms (prim_customShader p))
     @ [(''sampler2D'', ''u_megatextureTextures[METADATA_COUNT]'')] \<and>
   (''sampler2D'', ''u_megatextureTextures[METADATA_COUNT]'')
     \<in> set (fragmentUniforms (fst (VoxelRenderResources lib p)))"
  by (simp add: build_fragmentUniforms)

theorem megatexture_uniform_declared_witness:
  "fragmentUniforms (fst (VoxelRenderResources test_library test_primitive)) =
     [(''vec3'', ''u_tint''), (''float'', ''u_custom''),
      (''sampler2D'', ''u_megatextureTextures[METADATA_COUNT]'')]"
  using megatexture_uniform_declared [of test_library test_primitive]
  by (simp add: test_primitive_def)

subsection \<open>C9: determinism\<close>

text \<open>
  Claim C9. The constructor is a function of the primitive, and a second build on the
  primitive as the first build left it (with the merged uniform map assigned) gives the
  same constructed object: the same builder state for both stages, the same uniform map,
  the same clipping data, and leaves the primitive as it was.
\<close>

theorem build_deterministic:
  "VoxelRenderResources lib (snd (VoxelRenderResources lib p)) = VoxelRenderResources lib p"
  by (simp add: VoxelRenderResources_def Let_def combine_def map_add_twice)

theorem build_deterministic_witness:
  "VoxelRenderResources test_library (snd (VoxelRenderResources test_library test_primitive))
     = VoxelRenderResources test_library test_primitive"
  using build_deterministic [of test_library test_primitive] by simp

subsection \<open>C10: missing or disabled clipping planes\<close>

text \<open>
  Claim C10. When the primitive's clipping-plane collection is undefined, or is defined
  with its enabled flag false (whatever count it reports), the reported
  \<open>clippingPlanesLength\<close> is 0; the builder and the uniform map are those of a build with
  an enabled collection of zero planes; and the fragment stage has no clipping define,
  no clipping fragment and no clipping slot index, the counter advancing for the depth
  test only. The constructor is a total function: the build completes.
\<close>

theorem clipping_missing_or_disabled:
  assumes "prim_clippingPlanes p = None \<or>
           (\<exists>c. prim_clippingPlanes p = Some c \<and> \<not> enabled c)"
  shows "let r = fst (VoxelRenderResources lib p);
             r0 = fst (VoxelRenderResources lib
                    (p\<lparr>prim_clippingPlanes :=
                         Some \<lparr>enabled = True, length_cp = 0, unionClippingRegions = u\<rparr>\<rparr>));
             M = shaderMaximumIntersectionsLength (prim_shape p)
         in clippingPlanesLength r = 0 \<and>
            shaderBuilder r = shaderBuilder r0 \<and>
            uniformMap r = uniformMap r0 \<and>
            clippingPlanesLength r = clippingPlanesLength r0 \<and>
            fragmentLines r =
              [fragmentShaderText (prim_customShader p), ''#line 0'', Octree lib,
               IntersectionUtils lib, Megatexture lib]
              @ only_if (prim_depthTest p) [IntersectDepth lib]
              @ (if shape (prim_provider p) = ''BOX''
                 then [convertUvToBox lib, IntersectBox lib, Intersection lib]
                 else if shape (prim_provider p) = ''CYLINDER''
                 then [IntersectCylinder lib, Intersection lib, convertUvToCylinder lib]
                 else if shape (prim_provider p) = ''ELLIPSOID''
                 then [IntersectEllipsoid lib, Intersection lib, convertUvToEllipsoid lib]
                 else [])
              @ [VoxelFS lib] \<and>
            fragmentDefines r =
              only_if (prim_depthTest p) [(''DEPTH_TEST'', JUndefined)]
              @ only_if (shape (prim_provider p) = ''BOX'') [(''SHAPE_BOX'', JUndefined)]
              @ concat (map shape_define_entry (shaderDefines (prim_shape p)))
              @ only_if (prim_depthTest p) [(''DEPTH_INTERSECTION_INDEX'', JNum M)]
              @ [(''INTERSECTION_COUNT'', JNum (if prim_depthTest p then M + 1 else M))]
              @ only_if (paddingBefore p \<noteq> Cartesian3_ZERO \<or> paddingAfter p \<noteq> Cartesian3_ZERO)
                  [(''PADDING'', JUndefined)]
              @ only_if (prim_useLogDepth p) [(''LOG_DEPTH_READ_ONLY'', JUndefined)]
              @ only_if (prim_jitter p) [(''JITTER'', JUndefined)]
              @ only_if (prim_nearestSampling p) [(''NEAREST_SAMPLING'', JUndefined)]
              @ [(''SAMPLE_COUNT'', JStr (template_literal (sampleCount (prim_traversal p))))]"
proof -
  let ?r = "fst (VoxelRenderResources lib p)"
  let ?pz = "p\<lparr>prim_clippingPlanes :=
                 Some \<lparr>enabled = True, length_cp = 0, unionClippingRegions = u\<rparr>\<rparr>"
  let ?rz = "fst (VoxelRenderResources lib ?pz)"
  have n: "getClippingPlanesLength (prim_clippingPlanes p) = 0"
    using assms by (rule getClippingPlanesLength_disabled)
  have n0: "getClippingPlanesLength
              (Some \<lparr>enabled = True, length_cp = 0, unionClippingRegions = u\<rparr>) = 0"
    by (simp add: getClippingPlanesLength_def)
  have len: "clippingPlanesLength ?r = 0"
    by (simp add: build_clippingPlanesLength n)
  have len0: "clippingPlanesLength ?rz = 0"
    by (simp add: build_clippingPlanesLength n0)
  have ls: "fragmentLines ?r =
              [fragmentShaderText (prim_customShader p), ''#line 0'', Octree lib,
               IntersectionUtils lib, Megatexture lib]
              @ only_if (prim_depthTest p) [IntersectDepth lib]
              @ (if shape (prim_provider p) = ''BOX''
                 then [convertUvToBox lib, IntersectBox lib, Intersection lib]
                 else if shape (prim_provider p) = ''CYLINDER''
                 then [IntersectCylinder lib, Intersection lib, convertUvToCylinder lib]
                 else if shape (prim_provider p) = ''ELLIPSOID''
                 then [IntersectEllipsoid lib, Intersection lib, convertUvToEllipsoid lib]
                 else [])
              @ [VoxelFS lib]"
    by (simp add: build_fragmentLines n split del: if_split)
  have ls0: "fragmentLines ?rz = fragmentLines ?r"
    unfolding ls
    by (simp add: build_fragmentLines n0 split del: if_split cong del: if_weak_cong)
  have ds: "fragmentDefines ?r =
              only_if (prim_depthTest p) [(''DEPTH_TEST'', JUndefined)]
              @ only_if (shape (prim_provider p) = ''BOX'') [(''SHAPE_BOX'', JUndefined)]
              @ concat (map shape_define_entry (shaderDefines (prim_shape p)))
              @ only_if (prim_depthTest p)
                  [(''DEPTH_INTERSECTION_INDEX'', JNum (shaderMaximumIntersectionsLength (prim_shape p)))]
              @ [(''INTERSECTION_COUNT'',
                  JNum (if prim_depthTest p then shaderMaximumIntersectionsLength (prim_shape p) + 1
                        else shaderMaximumIntersectionsLength (prim_shape p)))]
              @ only_if (paddingBefore p \<noteq> Cartesian3_ZERO \<or> paddingAfter p \<noteq> Cartesian3_ZERO)
                  [(''PADDING'', JUndefined)]
              @ only_if (prim_useLogDepth p) [(''LOG_DEPTH_READ_ONLY'', JUndefined)]
              @ only_if (prim_jitter p) [(''JITTER'', JUndefined)]
              @ only_if (prim_nearestSampling p) [(''NEAREST_SAMPLING'', JUndefined)]
              @ [(''SAMPLE_COUNT'', JStr (template_literal (sampleCount (prim_traversal p))))]"
    by (cases "prim_depthTest p")
       (simp_all add: build_fragmentDefines n split del: if_split)
  have ds0: "fragmentDefines ?rz = fragmentDefines ?r"
    unfolding ds
    by (cases "prim_depthTest p")
       (simp_all add: build_fragmentDefines n0 split del: if_split cong del: if_weak_cong)
  have us0: "fragmentUniforms ?rz = fragmentUniforms ?r"
    by (simp add: build_fragmentUniforms)
  have vs0: "vertexShaderParts (shaderBuilder ?rz) = vertexShaderParts (shaderBuilder ?r)"
    by (simp add: build_vertex)
  have sb: "shaderBuilder ?r = shaderBuilder ?rz"
    by (rule build_shaderBuilder_cong) (simp_all only: vs0 us0 ds0 ls0)
  have um: "uniformMap ?r = uniformMap ?rz"
    by (simp add: build_uniformMap)
  show ?thesis
    unfolding Let_def
    by (intro conjI len sb um ls ds) (simp only: len len0)
qed

theorem clipping_missing_or_disabled_witness:
  "prim_clippingPlanes (test_primitive\<lparr>prim_clippingPlanes := test_planes False 3 True\<rparr>)
     = test_planes False 3 True \<and>
   clippingPlanesLength (fst (VoxelRenderResources test_library
       (test_primitive\<lparr>prim_clippingPlanes := test_planes False 3 True\<rparr>))) = 0 \<and>
   fragmentDefines (fst (VoxelRenderResources test_library
       (test_primitive\<lparr>prim_clippingPlanes := test_planes False 3 True\<rparr>))) =
     [(''SHAPE_BOX'', JUndefined), (''BOX_INTERSECTION_INDEX'', JNum 0),
      (''BOX_HAS_RENDER_BOUNDS'', JUndefined), (''INTERSECTION_COUNT'', JNum 6),
      (''SAMPLE_COUNT'', JStr ''64'')] \<and>
   fragmentLines (fst (VoxelRenderResources test_library
       (test_primitive\<lparr>prim_clippingPlanes := test_planes False 3 True\<rparr>))) =
     [''void fragmentMain() {}'', ''#line 0'', ''Octree'', ''IntersectionUtils'',
      ''Megatexture'', ''convertUvToBox'', ''IntersectBox'', ''Intersection'', ''VoxelFS''] \<and>
   clippingPlanesLength (fst (VoxelRenderResources test_library test_primitive)) = 0"
proof -
  have h: "prim_clippingPlanes (test_primitive\<lparr>prim_clippingPlanes := test_planes False 3 True\<rparr>) = None \<or>
           (\<exists>c. prim_clippingPlanes (test_primitive\<lparr>prim_clippingPlanes := test_planes False 3 True\<rparr>) = Some c
                \<and> \<not> enabled c)"
    by (simp add: test_planes_def)
  have h': "prim_clippingPlanes test_primitive = None \<or>
           (\<exists>c. prim_clippingPlanes test_primitive = Some c \<and> \<not> enabled c)"
    by (simp add: test_primitive_def)
  note t = clipping_missing_or_disabled [OF h, of test_library True, unfolded Let_def]
  note t' = clipping_missing_or_disabled [OF h', of test_library True, unfolded Let_def]
  note len = t [THEN conjunct1]
  note ls = t [THEN conjunct2, THEN conjunct2, THEN conjunct2, THEN conjunct2, THEN conjunct1]
  note ds = t [THEN conjunct2, THEN conjunct2, THEN conjunct2, THEN conjunct2, THEN conjunct2]
  note len' = t' [THEN conjunct1]
  show ?thesis
    unfolding len ls ds len'
    by (simp add: test_primitive_def test_library_def shape_define_entry_def
          Cartesian3_ZERO_def template_literal_def decimal_nat.simps)
qed


end
